theory Spec2Isabelle
  imports Main
begin

section \<open>JavaScript values read and written by auth.js\<close>

text \<open>
  The module handles four kinds of values: \<open>undefined\<close> (an unset environment variable,
  a missing property), \<open>null\<close> (a missing storage key, the literal passed to
  \<open>setAccessToken\<close>), booleans (the \<open>skipAuthLogic\<close> flag) and strings; a response
  body may also be an object, kept as the list of its own properties (the first binding
  of a name is the one read).
\<close>

datatype jsval =
    JUndefined
  | JNull
  | JBool bool
  | JStr string
  | JObj "(string \<times> jsval) list"

text \<open>Truthiness, as tested by \<open>if (v)\<close>, \<open>!v\<close>, \<open>a && b\<close> and \<open>a || b\<close>.\<close>

fun truthy :: "jsval \<Rightarrow> bool" where
  "truthy JUndefined = False"
| "truthy JNull = False"
| "truthy (JBool b) = b"
| "truthy (JStr s) = (s \<noteq> [])"
| "truthy (JObj fs) = True"

text \<open>
  String coercion, as done by template literals, by \<open>Storage.setItem\<close> and by
  \<open>FormData.append\<close> on their value argument.
\<close>

fun js_to_string :: "jsval \<Rightarrow> string" where
  "js_to_string JUndefined = ''undefined''"
| "js_to_string JNull = ''null''"
| "js_to_string (JBool b) = (if b then ''true'' else ''false'')"
| "js_to_string (JStr s) = s"
| "js_to_string (JObj fs) = ''[object Object]''"

text \<open>
  A rejection is either a \<open>TypeError\<close> raised by the module's own code (a property read
  on \<open>undefined\<close> or \<open>null\<close>) or the transport's raw error, passed on untransformed.
\<close>

datatype 'e failure = TypeError | Rejected 'e

text \<open>
  \<open>v.name\<close> for the two names the module reads on a response body, \<open>access_token\<close> and
  \<open>refresh_token\<close>: a \<open>TypeError\<close> on \<open>undefined\<close> and \<open>null\<close>, \<open>undefined\<close> on a
  boolean or a string (neither has such a property), the property's value on an object.
\<close>

definition field :: "(string \<times> jsval) list \<Rightarrow> string \<Rightarrow> jsval" where
  "field fs k = (case map_of fs k of None \<Rightarrow> JUndefined | Some v \<Rightarrow> v)"

fun get_prop :: "jsval \<Rightarrow> string \<Rightarrow> 'e failure + jsval" where
  "get_prop JUndefined k = Inl TypeError"
| "get_prop JNull k = Inl TypeError"
| "get_prop (JBool b) k = Inr JUndefined"
| "get_prop (JStr s) k = Inr JUndefined"
| "get_prop (JObj fs) k = Inr (field fs k)"

text \<open>
  The truthiness of \<open>v.length\<close>: a \<open>TypeError\<close> on \<open>undefined\<close> and \<open>null\<close>, the string's
  length being non-zero on a string.
\<close>

fun length_truthy :: "jsval \<Rightarrow> 'e failure + bool" where
  "length_truthy JUndefined = Inl TypeError"
| "length_truthy JNull = Inl TypeError"
| "length_truthy (JBool b) = Inr False"
| "length_truthy (JStr s) = Inr (s \<noteq> [])"
| "length_truthy (JObj fs) = Inr (truthy (field fs ''length''))"

text \<open>The truthiness of \<open>a && b.length\<close>: \<open>b.length\<close> is evaluated only when \<open>a\<close> is truthy.\<close>

definition and_length :: "jsval \<Rightarrow> jsval \<Rightarrow> 'e failure + bool" where
  "and_length a b = (if truthy a then length_truthy b else Inr False)"

text \<open>\<open>a || b\<close>.\<close>

definition js_or :: "jsval \<Rightarrow> jsval \<Rightarrow> jsval" where
  "js_or a b = (if truthy a then a else b)"

section \<open>The platform: process.env, localStorage, FormData\<close>

text \<open>
  \<open>process.env\<close> holds strings; a variable that is not set reads as \<open>undefined\<close>.
\<close>

type_synonym environment = "string \<rightharpoonup> string"

definition process_env :: "environment \<Rightarrow> string \<Rightarrow> jsval" where
  "process_env e k = (case e k of None \<Rightarrow> JUndefined | Some s \<Rightarrow> JStr s)"

text \<open>
  \<open>localStorage\<close> is the browser's Web Storage: a map from string keys to string values.
  \<open>getItem\<close> returns \<open>null\<close> for a key that is not stored, \<open>setItem\<close> stores the string
  coercion of its value argument, \<open>removeItem\<close> deletes the key (and does nothing when
  the key is not stored).
\<close>

type_synonym storage = "string \<rightharpoonup> string"

definition getItem :: "storage \<Rightarrow> string \<Rightarrow> jsval" where
  "getItem st k = (case st k of None \<Rightarrow> JNull | Some s \<Rightarrow> JStr s)"

definition setItem :: "storage \<Rightarrow> string \<Rightarrow> jsval \<Rightarrow> storage" where
  "setItem st k v = st(k \<mapsto> js_to_string v)"

definition removeItem :: "storage \<Rightarrow> string \<Rightarrow> storage" where
  "removeItem st k = st(k := None)"

text \<open>
  A \<open>FormData\<close> is the list of its entries in the order they were appended;
  \<open>append\<close> coerces the value to a string.
\<close>

type_synonym form_data = "(string \<times> string) list"

definition fd_append :: "form_data \<Rightarrow> string \<Rightarrow> jsval \<Rightarrow> form_data" where
  "fd_append d k v = d @ [(k, js_to_string v)]"

section \<open>The transport: clients, calls, requests and responses\<close>

text \<open>
  A client is what \<open>axios.create\<close> returns: its base URL and the handlers registered on
  it. The module registers one request handler (\<open>requestInterceptor\<close>, through
  \<open>client.interceptors.request.use\<close>) and one refresh handler (\<open>refreshAuthLogic\<close>,
  through \<open>createAuthRefreshInterceptor\<close>).
\<close>

datatype request_handler = RequestInterceptor

datatype refresh_handler = RefreshAuthLogic

record client =
  baseURL :: jsval
  request_use :: "request_handler list"
  auth_refresh :: "refresh_handler list"

definition axios_create :: "jsval \<Rightarrow> client" where
  "axios_create endpoint = \<lparr>baseURL = endpoint, request_use = [], auth_refresh = []\<rparr>"

text \<open>
  A call handed to the transport: the client it is made on, the method, the URL argument,
  the body, the headers of the call's own configuration and its \<open>skipAuthRefresh\<close> flag.
\<close>

datatype http_method = GET | POST

record http_call =
  call_client :: client
  call_method :: http_method
  call_url :: jsval
  call_data :: "form_data option"
  call_headers :: "(string \<times> jsval) list"
  skipAuthRefresh :: bool

text \<open>
  Where the transport sends a call: the URL argument resolved against the client's base
  URL. An absolute URL argument (an optional scheme, a letter of either case followed by
  letters, digits, \<open>+\<close>, \<open>-\<close> and \<open>.\<close> up to a colon, then \<open>//\<close>) is used as it is;
  any other string is appended to the base URL, with one \<open>/\<close> between them in place of
  the base's trailing and the argument's leading ones; an empty, \<open>undefined\<close> or \<open>null\<close>
  argument leaves the base URL. Without a base URL the argument is used as it is. The
  module passes strings, \<open>undefined\<close> and \<open>null\<close> only.
\<close>

definition scheme_start :: "char \<Rightarrow> bool" where
  "scheme_start c =
     (let n = (of_char c :: nat)
      in if 97 \<le> n \<and> n \<le> 122 then True else 65 \<le> n \<and> n \<le> 90)"

definition scheme_char :: "char \<Rightarrow> bool" where
  "scheme_char c =
     (let n = (of_char c :: nat)
      in if scheme_start c then True
         else if 48 \<le> n \<and> n \<le> 57 then True
         else c \<in> set ''+-.'')"

definition isAbsoluteURL :: "string \<Rightarrow> bool" where
  "isAbsoluteURL url =
     (if take 2 url = ''//'' then True
      else (case url of
              [] \<Rightarrow> False
            | c # cs \<Rightarrow> scheme_start c \<and> take 3 (dropWhile scheme_char cs) = ''://''))"

definition combineURLs :: "string \<Rightarrow> string \<Rightarrow> string" where
  "combineURLs base relativeURL =
     (if relativeURL \<noteq> []
      then rev (dropWhile (\<lambda>c. c = CHR ''/'') (rev base)) @ ''/''
           @ dropWhile (\<lambda>c. c = CHR ''/'') relativeURL
      else base)"

definition buildFullPath :: "jsval \<Rightarrow> jsval \<Rightarrow> jsval" where
  "buildFullPath base requestedURL =
     (case base of
        JStr b \<Rightarrow>
          (if b = [] then requestedURL
           else (case requestedURL of
                   JStr r \<Rightarrow> if isAbsoluteURL r then JStr r else JStr (combineURLs b r)
                 | _ \<Rightarrow> JStr b))
      | _ \<Rightarrow> requestedURL)"

definition call_target :: "http_call \<Rightarrow> jsval" where
  "call_target c = buildFullPath (baseURL (call_client c)) (call_url c)"

text \<open>
  The request configuration a request handler receives: its headers, and whatever else
  the transport keeps in it (the record's extension). The transport always hands over a
  headers object, so \<open>request.headers\<close> is never \<open>undefined\<close>.
\<close>

record request =
  headers :: "string \<rightharpoonup> string"

text \<open>A response: its body \<open>data\<close>, and whatever else the transport returns with it.\<close>

record response =
  data :: jsval

text \<open>
  The state the module acts on: the contents of \<open>localStorage\<close> and the calls handed to
  the transport so far, oldest first.
\<close>

record world =
  localStorage :: storage
  network :: "http_call list"

section \<open>auth.js\<close>

subsection \<open>Module variables (lines 41 to 45)\<close>

definition oauthEndpoint :: "environment \<Rightarrow> jsval" where
  "oauthEndpoint e =
     (if truthy (process_env e ''VUE_APP_CLIENT_ID'')
      then js_or (process_env e ''VUE_APP_OAUTH_ENDPOINT'') (JStr ''/oauth/token'')
      else JNull)"

subsection \<open>setAccessToken, getAccessToken\<close>

definition setAccessToken :: "storage \<Rightarrow> jsval \<Rightarrow> storage" where
  "setAccessToken st token = setItem st ''access_token'' token"

definition getAccessToken :: "storage \<Rightarrow> jsval" where
  "getAccessToken st = getItem st ''access_token''"

subsection \<open>requestInterceptor\<close>

definition requestInterceptor :: "storage \<Rightarrow> 'a request_scheme \<Rightarrow> 'a request_scheme" where
  "requestInterceptor st request =
     (let accessToken = getAccessToken st in
      if truthy accessToken
      then request\<lparr>headers :=
             (headers request)(''Authorization'' \<mapsto> ''Bearer '' @ js_to_string accessToken)\<rparr>
      else
        (let csrfToken = getItem st ''csrfToken'' in
         if truthy csrfToken
         then request\<lparr>headers :=
                (headers request)(''X-CSRF-Token'' \<mapsto> js_to_string csrfToken)\<rparr>
         else request))"

subsection \<open>createClient\<close>

definition createClient :: "environment \<Rightarrow> jsval \<Rightarrow> jsval \<Rightarrow> client" where
  "createClient e endpoint skipAuthLogic =
     (let client = axios_create endpoint in
      if \<not> truthy skipAuthLogic
      then
        (let client1 =
           (if truthy (process_env e ''VUE_APP_CLIENT_ID'')
            then client\<lparr>auth_refresh := auth_refresh client @ [RefreshAuthLogic]\<rparr>
            else client)
         in client1\<lparr>request_use := request_use client1 @ [RequestInterceptor]\<rparr>)
      else client)"

text \<open>
  What the transport does with the request handlers of a client before it sends a
  request: each registered handler maps the request, reading the store as it is then.
\<close>

fun run_request_handler ::
  "request_handler \<Rightarrow> storage \<Rightarrow> 'a request_scheme \<Rightarrow> 'a request_scheme" where
  "run_request_handler RequestInterceptor st request = requestInterceptor st request"

definition before_send :: "client \<Rightarrow> storage \<Rightarrow> 'a request_scheme \<Rightarrow> 'a request_scheme" where
  "before_send c st request = fold (\<lambda>h r. run_request_handler h st r) (request_use c) request"

subsection \<open>Module initialisation (lines 156 to 165)\<close>

definition csrfEndpoint :: "environment \<Rightarrow> jsval" where
  "csrfEndpoint e = js_or (process_env e ''VUE_APP_CSRF_TOKEN_ENDPOINT'') (JStr ''/session/token'')"

text \<open>
  \<open>tokenClient\<close> is assigned once, while the module loads, before any exported function
  can run; it is a function of the environment.
\<close>

definition tokenClient :: "environment \<Rightarrow> client" where
  "tokenClient e =
     (if truthy (process_env e ''VUE_APP_CLIENT_ID'')
      then createClient e (oauthEndpoint e) (JBool True)
      else createClient e (csrfEndpoint e) (JBool True))"

text \<open>The synchronous part: in the else branch, \<open>tokenClient.get()\<close> is handed to the transport.\<close>

definition init_send :: "environment \<Rightarrow> world \<Rightarrow> world" where
  "init_send e w =
     (if truthy (process_env e ''VUE_APP_CLIENT_ID'')
      then w
      else w\<lparr>network := network w @
             [\<lparr>call_client = tokenClient e, call_method = GET, call_url = JUndefined,
               call_data = None, call_headers = [], skipAuthRefresh = False\<rparr>]\<rparr>)"

text \<open>The \<open>then\<close> handler of that call.\<close>

definition init_then :: "world \<Rightarrow> 'a response_scheme \<Rightarrow> world" where
  "init_then w response =
     w\<lparr>localStorage := setItem (localStorage w) ''csrfToken'' (data response)\<rparr>"

text \<open>
  The whole initialisation, given how the call settles. No handler is registered for a
  failure: the rejection stays unhandled and the store is as it was.
\<close>

definition module_init :: "environment \<Rightarrow> world \<Rightarrow> 'e + 'a response_scheme \<Rightarrow> world" where
  "module_init e w outcome =
     (if truthy (process_env e ''VUE_APP_CLIENT_ID'')
      then init_send e w
      else (case outcome of
              Inl err \<Rightarrow> init_send e w
            | Inr response \<Rightarrow> init_then (init_send e w) response))"

subsection \<open>refreshAuthLogic\<close>

text \<open>The form built in lines 58 to 64.\<close>

definition refresh_data :: "environment \<Rightarrow> storage \<Rightarrow> 'e failure + form_data" where
  "refresh_data e st =
     (let data0 = fd_append [] ''grant_type'' (JStr ''refresh_token'');
          data1 = fd_append data0 ''client_id'' (process_env e ''VUE_APP_CLIENT_ID'');
          data2 = fd_append data1 ''refresh_token'' (getItem st ''refresh_token'')
      in case and_length (process_env e ''VUE_APP_CLIENT_SECRET'')
                         (process_env e ''VUE_APP_CLIENT_SECRET'') of
           Inl err \<Rightarrow> Inl err
         | Inr c \<Rightarrow>
             Inr (if c then fd_append data2 ''client_secret'' (process_env e ''VUE_APP_CLIENT_SECRET'')
                  else data2))"

text \<open>The synchronous part: the form is built and \<open>tokenClient.post\<close> is handed to the transport.\<close>

definition refreshAuthLogic_send :: "environment \<Rightarrow> world \<Rightarrow> 'e failure + world" where
  "refreshAuthLogic_send e w =
     (case refresh_data e (localStorage w) of
        Inl err \<Rightarrow> Inl err
      | Inr d \<Rightarrow>
          Inr (w\<lparr>network := network w @
                 [\<lparr>call_client = tokenClient e, call_method = POST, call_url = JStr [],
                   call_data = Some d,
                   call_headers =
                     [(''Content-Type'', JStr ''application/x-www-form-urlencoded''),
                      (''Authorization'', JNull)],
                   skipAuthRefresh = True\<rparr>]\<rparr>))"

text \<open>
  The \<open>then\<close> handler: the argument of each store write is evaluated before the write, so
  a \<open>TypeError\<close> on the body leaves the store as it is and rejects the promise.
\<close>

definition refreshAuthLogic_then ::
  "world \<Rightarrow> 'f \<Rightarrow> 'a response_scheme \<Rightarrow> world \<times> ('e failure + 'f)" where
  "refreshAuthLogic_then w failedRequest tokenRefreshResponse =
     (case get_prop (data tokenRefreshResponse) ''access_token'' of
        Inl err \<Rightarrow> (w, Inl err)
      | Inr a \<Rightarrow>
          (let st1 = setAccessToken (localStorage w) a in
           case get_prop (data tokenRefreshResponse) ''refresh_token'' of
             Inl err \<Rightarrow> (w\<lparr>localStorage := st1\<rparr>, Inl err)
           | Inr r \<Rightarrow>
               (w\<lparr>localStorage := setItem st1 ''refresh_token'' r\<rparr>, Inr failedRequest)))"

text \<open>
  The whole function, given how the POST settles. Only a fulfilment handler is chained,
  so a rejection of the POST is the rejection of the returned promise.
\<close>

definition refreshAuthLogic ::
  "environment \<Rightarrow> world \<Rightarrow> 'f \<Rightarrow> 'e + 'a response_scheme \<Rightarrow> world \<times> ('e failure + 'f)" where
  "refreshAuthLogic e w failedRequest outcome =
     (case refreshAuthLogic_send e w of
        Inl err \<Rightarrow> (w, Inl err)
      | Inr w1 \<Rightarrow>
          (case outcome of
             Inl err \<Rightarrow> (w1, Inl (Rejected err))
           | Inr tokenRefreshResponse \<Rightarrow> refreshAuthLogic_then w1 failedRequest tokenRefreshResponse))"

subsection \<open>loginUserCredentials\<close>

text \<open>
  The form built in lines 125 to 135. The test before \<open>client_secret\<close> reads
  \<open>VUE_APP_CLIENT_ID.length\<close>, which raises a \<open>TypeError\<close> when the secret is set and the
  client id is not.
\<close>

definition login_data :: "environment \<Rightarrow> string \<Rightarrow> string \<Rightarrow> 'e failure + form_data" where
  "login_data e username password =
     (let data0 = fd_append [] ''grant_type'' (JStr ''password'');
          data1 = fd_append data0 ''client_id'' (process_env e ''VUE_APP_CLIENT_ID'');
          data2 = fd_append data1 ''username'' (JStr username);
          data3 = fd_append data2 ''password'' (JStr password)
      in case and_length (process_env e ''VUE_APP_CLIENT_SECRET'')
                         (process_env e ''VUE_APP_CLIENT_ID'') of
           Inl err \<Rightarrow> Inl err
         | Inr c1 \<Rightarrow>
             (let data4 =
                (if c1 then fd_append data3 ''client_secret'' (process_env e ''VUE_APP_CLIENT_SECRET'')
                 else data3)
              in case and_length (process_env e ''VUE_APP_REDIRECT_URI'')
                                 (process_env e ''VUE_APP_REDIRECT_URI'') of
                   Inl err \<Rightarrow> Inl err
                 | Inr c2 \<Rightarrow>
                     Inr (if c2
                          then fd_append data4 ''redirect_uri'' (process_env e ''VUE_APP_REDIRECT_URI'')
                          else data4)))"

text \<open>
  The synchronous part, the body of the promise's executor: the form is built,
  \<open>setAccessToken(null)\<close> runs and \<open>tokenClient.post\<close> is handed to the transport. An
  exception in the executor rejects the promise before either of the last two.
\<close>

definition loginUserCredentials_send ::
  "environment \<Rightarrow> world \<Rightarrow> string \<Rightarrow> string \<Rightarrow> 'e failure + world" where
  "loginUserCredentials_send e w username password =
     (case login_data e username password of
        Inl err \<Rightarrow> Inl err
      | Inr d \<Rightarrow>
          (let w1 = w\<lparr>localStorage := setAccessToken (localStorage w) JNull\<rparr>
           in Inr (w1\<lparr>network := network w1 @
                     [\<lparr>call_client = tokenClient e, call_method = POST,
                       call_url = oauthEndpoint e, call_data = Some d,
                       call_headers =
                         [(''Content-Type'', JStr ''application/x-www-form-urlencoded'')],
                       skipAuthRefresh = False\<rparr>]\<rparr>)))"

text \<open>
  The \<open>then\<close> handler; an exception in it reaches the \<open>catch\<close> handler, which rejects
  with it.
\<close>

definition loginUserCredentials_then ::
  "world \<Rightarrow> string \<Rightarrow> 'a response_scheme \<Rightarrow> world \<times> ('e failure + 'a response_scheme)" where
  "loginUserCredentials_then w username response =
     (case get_prop (data response) ''access_token'' of
        Inl err \<Rightarrow> (w, Inl err)
      | Inr a \<Rightarrow>
          (let st1 = setAccessToken (localStorage w) a in
           case get_prop (data response) ''refresh_token'' of
             Inl err \<Rightarrow> (w\<lparr>localStorage := st1\<rparr>, Inl err)
           | Inr r \<Rightarrow>
               (let st2 = setItem st1 ''refresh_token'' r;
                    st3 = setItem st2 ''username'' (JStr username)
                in (w\<lparr>localStorage := st3\<rparr>, Inr response))))"

text \<open>The whole function, given how the POST settles.\<close>

definition loginUserCredentials ::
  "environment \<Rightarrow> world \<Rightarrow> string \<Rightarrow> string \<Rightarrow> 'e + 'a response_scheme
     \<Rightarrow> world \<times> ('e failure + 'a response_scheme)" where
  "loginUserCredentials e w username password outcome =
     (case loginUserCredentials_send e w username password of
        Inl err \<Rightarrow> (w, Inl err)
      | Inr w1 \<Rightarrow>
          (case outcome of
             Inl err \<Rightarrow> (w1, Inl (Rejected err))
           | Inr response \<Rightarrow> loginUserCredentials_then w1 username response))"

subsection \<open>logoutUser\<close>

definition logoutUser :: "world \<Rightarrow> world" where
  "logoutUser w =
     (let st1 = removeItem (localStorage w) ''access_token'';
          st2 = removeItem st1 ''refresh_token'';
          st3 = removeItem st2 ''username''
      in w\<lparr>localStorage := st3\<rparr>)"

subsection \<open>The specification's Mode\<close>

text \<open>
  The specification's words: Mode is OAuth iff \<open>clientId\<close> is present and non-empty, else
  Csrf. The code has no such variable; it tests \<open>process.env.VUE_APP_CLIENT_ID\<close> for
  truthiness wherever the mode matters.
\<close>

datatype mode = OAuth | Csrf

definition Mode_spec :: "environment \<Rightarrow> mode" where
  "Mode_spec e =
     (case e ''VUE_APP_CLIENT_ID'' of
        None \<Rightarrow> Csrf
      | Some s \<Rightarrow> if s \<noteq> [] then OAuth else Csrf)"

section \<open>Basic facts\<close>

lemma truthy_process_env:
  "truthy (process_env e k) = (case e k of None \<Rightarrow> False | Some s \<Rightarrow> s \<noteq> [])"
  by (simp add: process_env_def split: option.splits)

lemma Mode_spec_truthy:
  "(Mode_spec e = OAuth) = truthy (process_env e ''VUE_APP_CLIENT_ID'')"
  by (simp add: Mode_spec_def process_env_def split: option.splits)

lemma and_length_same_env:
  "and_length (process_env e k) (process_env e k) = Inr (truthy (process_env e k))"
  by (simp add: and_length_def process_env_def split: option.splits)

lemma createClient_falsy:
  "\<not> truthy skipAuthLogic \<Longrightarrow>
   createClient e endpoint skipAuthLogic =
     \<lparr>baseURL = endpoint, request_use = [RequestInterceptor],
      auth_refresh = (if truthy (process_env e ''VUE_APP_CLIENT_ID'') then [RefreshAuthLogic] else [])\<rparr>"
  by (simp add: createClient_def axios_create_def Let_def)

lemma createClient_truthy:
  "truthy skipAuthLogic \<Longrightarrow>
   createClient e endpoint skipAuthLogic =
     \<lparr>baseURL = endpoint, request_use = [], auth_refresh = []\<rparr>"
  by (simp add: createClient_def axios_create_def Let_def)

lemma before_send_falsy:
  "\<not> truthy skipAuthLogic \<Longrightarrow>
   before_send (createClient e endpoint skipAuthLogic) st request = requestInterceptor st request"
  by (simp add: before_send_def createClient_falsy)

text \<open>The form of a refresh, whatever the environment: the test on the secret cannot raise.\<close>

lemma refresh_data_eq:
  "refresh_data e st =
     Inr ([(''grant_type'', ''refresh_token''),
           (''client_id'', js_to_string (process_env e ''VUE_APP_CLIENT_ID'')),
           (''refresh_token'', js_to_string (getItem st ''refresh_token''))]
          @ (case e ''VUE_APP_CLIENT_SECRET'' of
               None \<Rightarrow> []
             | Some s \<Rightarrow> if s \<noteq> [] then [(''client_secret'', s)] else []))"
  unfolding refresh_data_def and_length_same_env
  by (simp add: fd_append_def Let_def process_env_def split: option.splits)

lemma refreshAuthLogic_send_eq:
  "refreshAuthLogic_send e w =
     Inr (w\<lparr>network := network w @
            [\<lparr>call_client = tokenClient e, call_method = POST, call_url = JStr [],
              call_data = Some
                ([(''grant_type'', ''refresh_token''),
                  (''client_id'', js_to_string (process_env e ''VUE_APP_CLIENT_ID'')),
                  (''refresh_token'', js_to_string (getItem (localStorage w) ''refresh_token''))]
                 @ (case e ''VUE_APP_CLIENT_SECRET'' of
                      None \<Rightarrow> []
                    | Some s \<Rightarrow> if s \<noteq> [] then [(''client_secret'', s)] else [])),
              call_headers =
                [(''Content-Type'', JStr ''application/x-www-form-urlencoded''),
                 (''Authorization'', JNull)],
              skipAuthRefresh = True\<rparr>]\<rparr>)"
  by (simp add: refreshAuthLogic_send_def refresh_data_eq)

text \<open>The form of a login when the client id is set and non-empty: no test can raise.\<close>

lemma login_data_oauth:
  assumes cid: "e ''VUE_APP_CLIENT_ID'' = Some cid" and ne: "cid \<noteq> []"
  shows
    "login_data e username password =
       Inr ([(''grant_type'', ''password''), (''client_id'', cid),
             (''username'', username), (''password'', password)]
            @ (case e ''VUE_APP_CLIENT_SECRET'' of
                 None \<Rightarrow> []
               | Some s \<Rightarrow> if s \<noteq> [] then [(''client_secret'', s)] else [])
            @ (case e ''VUE_APP_REDIRECT_URI'' of
                 None \<Rightarrow> []
               | Some u \<Rightarrow> if u \<noteq> [] then [(''redirect_uri'', u)] else []))"
proof -
  have c1: "and_length (process_env e ''VUE_APP_CLIENT_SECRET'') (process_env e ''VUE_APP_CLIENT_ID'')
      = (Inr (truthy (process_env e ''VUE_APP_CLIENT_SECRET'')) :: 'a failure + bool)"
    using cid ne by (simp add: and_length_def process_env_def)
  show ?thesis
    unfolding login_data_def c1 and_length_same_env
    using cid by (simp add: fd_append_def Let_def process_env_def split: option.splits)
qed

section \<open>requestInterceptor\<close>

text \<open>
  C1, as amended. For every request sent through a client created with a falsy
  \<open>skipAuthLogic\<close>, with the store as it is at send time: if \<open>access_token\<close> is stored
  and non-empty, the \<open>Authorization\<close> header is set to \<open>Bearer <access_token>\<close> and
  every other header of the request, \<open>X-CSRF-Token\<close> included, is as the caller left it;
  else if \<open>csrfToken\<close> is stored and non-empty, the \<open>X-CSRF-Token\<close> header is set to
  \<open><csrfToken>\<close> and every other header, \<open>Authorization\<close> included, is as the caller
  left it; else the request is returned unmodified. The handler always returns the
  request; it has no failing branch.
\<close>

theorem before_send_precedence:
  fixes request :: "'a request_scheme"
  assumes skip: "\<not> truthy skipAuthLogic"
  shows
   "(st ''access_token'' = Some a \<and> a \<noteq> [] \<longrightarrow>
       before_send (createClient e endpoint skipAuthLogic) st request =
         request\<lparr>headers := (headers request)(''Authorization'' \<mapsto> ''Bearer '' @ a)\<rparr>)
    \<and> ((st ''access_token'' = None \<or> st ''access_token'' = Some [])
         \<and> st ''csrfToken'' = Some c \<and> c \<noteq> [] \<longrightarrow>
       before_send (createClient e endpoint skipAuthLogic) st request =
         request\<lparr>headers := (headers request)(''X-CSRF-Token'' \<mapsto> c)\<rparr>)
    \<and> ((st ''access_token'' = None \<or> st ''access_token'' = Some [])
         \<and> (st ''csrfToken'' = None \<or> st ''csrfToken'' = Some []) \<longrightarrow>
       before_send (createClient e endpoint skipAuthLogic) st request = request)"
  using skip
  by (auto simp: before_send_falsy requestInterceptor_def getAccessToken_def getItem_def Let_def)

theorem before_send_precedence_witness:
  "before_send (createClient Map.empty JUndefined JUndefined) [''access_token'' \<mapsto> ''A1'', ''csrfToken'' \<mapsto> ''tok'']
       \<lparr>headers = Map.empty\<rparr>
     = \<lparr>headers = [''Authorization'' \<mapsto> ''Bearer A1'']\<rparr>
   \<and> before_send (createClient Map.empty JUndefined JUndefined) [''csrfToken'' \<mapsto> ''tok'']
       \<lparr>headers = Map.empty\<rparr>
     = \<lparr>headers = [''X-CSRF-Token'' \<mapsto> ''tok'']\<rparr>
   \<and> before_send (createClient Map.empty JUndefined JUndefined) Map.empty
       \<lparr>headers = [''Accept'' \<mapsto> ''text/plain'']\<rparr>
     = \<lparr>headers = [''Accept'' \<mapsto> ''text/plain'']\<rparr>"
proof -
  have skip: "\<not> truthy JUndefined" by simp
  note t = before_send_precedence [OF skip, where e = Map.empty and endpoint = JUndefined]
  have 1: "before_send (createClient Map.empty JUndefined JUndefined) [''access_token'' \<mapsto> ''A1'', ''csrfToken'' \<mapsto> ''tok'']
       \<lparr>headers = Map.empty\<rparr>
     = \<lparr>headers = [''Authorization'' \<mapsto> ''Bearer A1'']\<rparr>"
    using t [of "[''access_token'' \<mapsto> ''A1'', ''csrfToken'' \<mapsto> ''tok'']" "''A1''" "\<lparr>headers = Map.empty\<rparr>" "''tok''"]
    by simp
  have 2: "before_send (createClient Map.empty JUndefined JUndefined) [''csrfToken'' \<mapsto> ''tok'']
       \<lparr>headers = Map.empty\<rparr>
     = \<lparr>headers = [''X-CSRF-Token'' \<mapsto> ''tok'']\<rparr>"
    using t [of "[''csrfToken'' \<mapsto> ''tok'']" "''A1''" "\<lparr>headers = Map.empty\<rparr>" "''tok''"]
    by simp
  have 3: "before_send (createClient Map.empty JUndefined JUndefined) Map.empty
       \<lparr>headers = [''Accept'' \<mapsto> ''text/plain'']\<rparr>
     = \<lparr>headers = [''Accept'' \<mapsto> ''text/plain'']\<rparr>"
    using t [of Map.empty "''A1''" "\<lparr>headers = [''Accept'' \<mapsto> ''text/plain'']\<rparr>" "''tok''"]
    by simp
  from 1 2 3 show ?thesis by blast
qed

text \<open>
  C1, as stated, fails at two inputs. A request that already carries an \<open>X-CSRF-Token\<close>
  header keeps it when \<open>access_token\<close> is stored: the handler sets headers and removes
  none. And an \<open>access_token\<close> stored as the empty string is present in the store, yet
  falsy: no \<open>Authorization\<close> header is set.
\<close>

theorem before_send_claim_counterexample:
  "headers (before_send (createClient Map.empty JUndefined JUndefined)
              [''access_token'' \<mapsto> ''A1'']
              \<lparr>headers = [''X-CSRF-Token'' \<mapsto> ''caller'']\<rparr>) ''X-CSRF-Token'' = Some ''caller''
   \<and> headers (before_send (createClient Map.empty JUndefined JUndefined)
              [''access_token'' \<mapsto> [], ''csrfToken'' \<mapsto> ''tok'']
              \<lparr>headers = Map.empty\<rparr>) ''Authorization'' = None"
  by (simp add: before_send_def createClient_def axios_create_def Let_def requestInterceptor_def
      getAccessToken_def getItem_def process_env_def)

section \<open>createClient\<close>

text \<open>
  C5. For every call \<open>createClient(baseUrl, skipAuthLogic)\<close>: when \<open>skipAuthLogic\<close> is
  truthy the returned client has neither the request handler nor the refresh handler;
  when it is falsy the request handler is attached, and the refresh handler is attached
  exactly when Mode is OAuth. The function returns a client on every input: it has no
  failing branch.
\<close>

theorem createClient_attaches:
  "(truthy skipAuthLogic \<longrightarrow>
      createClient e endpoint skipAuthLogic =
        \<lparr>baseURL = endpoint, request_use = [], auth_refresh = []\<rparr>)
   \<and> (\<not> truthy skipAuthLogic \<longrightarrow>
      createClient e endpoint skipAuthLogic =
        \<lparr>baseURL = endpoint, request_use = [RequestInterceptor],
         auth_refresh = (if Mode_spec e = OAuth then [RefreshAuthLogic] else [])\<rparr>)"
  by (simp add: createClient_truthy createClient_falsy Mode_spec_truthy)

theorem createClient_attaches_witness:
  "createClient [''VUE_APP_CLIENT_ID'' \<mapsto> ''cid''] (JStr ''/jsonapi'') (JBool True)
     = \<lparr>baseURL = JStr ''/jsonapi'', request_use = [], auth_refresh = []\<rparr>
   \<and> createClient [''VUE_APP_CLIENT_ID'' \<mapsto> ''cid''] (JStr ''/jsonapi'') JUndefined
     = \<lparr>baseURL = JStr ''/jsonapi'', request_use = [RequestInterceptor],
        auth_refresh = [RefreshAuthLogic]\<rparr>
   \<and> createClient Map.empty (JStr ''/jsonapi'') JUndefined
     = \<lparr>baseURL = JStr ''/jsonapi'', request_use = [RequestInterceptor], auth_refresh = []\<rparr>"
proof -
  have 1: "createClient [''VUE_APP_CLIENT_ID'' \<mapsto> ''cid''] (JStr ''/jsonapi'') (JBool True)
     = \<lparr>baseURL = JStr ''/jsonapi'', request_use = [], auth_refresh = []\<rparr>"
    using createClient_attaches [of "JBool True" "[''VUE_APP_CLIENT_ID'' \<mapsto> ''cid'']" "JStr ''/jsonapi''"]
    by simp
  have 2: "createClient [''VUE_APP_CLIENT_ID'' \<mapsto> ''cid''] (JStr ''/jsonapi'') JUndefined
     = \<lparr>baseURL = JStr ''/jsonapi'', request_use = [RequestInterceptor],
        auth_refresh = [RefreshAuthLogic]\<rparr>"
    using createClient_attaches [of JUndefined "[''VUE_APP_CLIENT_ID'' \<mapsto> ''cid'']" "JStr ''/jsonapi''"]
    by (simp add: Mode_spec_def)
  have 3: "createClient Map.empty (JStr ''/jsonapi'') JUndefined
     = \<lparr>baseURL = JStr ''/jsonapi'', request_use = [RequestInterceptor], auth_refresh = []\<rparr>"
    using createClient_attaches [of JUndefined Map.empty "JStr ''/jsonapi''"]
    by (simp add: Mode_spec_def)
  from 1 2 3 show ?thesis by blast
qed

section \<open>Module initialisation\<close>

text \<open>
  C6. Mode is OAuth exactly when the code's test on \<open>VUE_APP_CLIENT_ID\<close> succeeds (the
  client id is set and non-empty), else Csrf; the environment is fixed, so the test gives
  the same answer wherever the code repeats it. When Mode is Csrf, initialisation hands
  exactly one call to the transport, a GET on the token client, which is created on the
  CSRF endpoint with no handler attached, and on success the body is stored as
  \<open>csrfToken\<close> (verbatim when it is text). When Mode is OAuth, initialisation hands no
  call to the transport and leaves the store, \<open>access_token\<close> and \<open>refresh_token\<close>
  included, as it was.
\<close>

theorem module_init_by_mode:
  fixes response :: "'a response_scheme" and outcome :: "'e + 'a response_scheme"
  shows
    "(Mode_spec e = OAuth) = truthy (process_env e ''VUE_APP_CLIENT_ID'')
     \<and> (Mode_spec e = Csrf) = (\<not> truthy (process_env e ''VUE_APP_CLIENT_ID''))
     \<and> (Mode_spec e = Csrf \<longrightarrow>
          tokenClient e = \<lparr>baseURL = csrfEndpoint e, request_use = [], auth_refresh = []\<rparr>
          \<and> init_send e w =
              w\<lparr>network := network w @
                  [\<lparr>call_client = tokenClient e, call_method = GET, call_url = JUndefined,
                    call_data = None, call_headers = [], skipAuthRefresh = False\<rparr>]\<rparr>
          \<and> module_init e w (Inr response :: 'e + 'a response_scheme) =
              w\<lparr>localStorage := (localStorage w)(''csrfToken'' \<mapsto> js_to_string (data response)),
                network := network w @
                  [\<lparr>call_client = tokenClient e, call_method = GET, call_url = JUndefined,
                    call_data = None, call_headers = [], skipAuthRefresh = False\<rparr>]\<rparr>)
     \<and> (Mode_spec e = OAuth \<longrightarrow> module_init e w outcome = w)"
proof -
  have m: "(Mode_spec e = Csrf) = (\<not> truthy (process_env e ''VUE_APP_CLIENT_ID''))"
    by (simp add: Mode_spec_def process_env_def split: option.splits)
  show ?thesis
    by (simp add: Mode_spec_truthy m module_init_def init_send_def init_then_def setItem_def
        tokenClient_def createClient_truthy)
qed

theorem module_init_by_mode_witness:
  "module_init Map.empty \<lparr>localStorage = Map.empty, network = []\<rparr>
      (Inr \<lparr>data = JStr ''tok123''\<rparr> :: unit + response)
     = \<lparr>localStorage = [''csrfToken'' \<mapsto> ''tok123''],
        network = [\<lparr>call_client = \<lparr>baseURL = JStr ''/session/token'', request_use = [],
                                   auth_refresh = []\<rparr>,
                    call_method = GET, call_url = JUndefined, call_data = None,
                    call_headers = [], skipAuthRefresh = False\<rparr>]\<rparr>
   \<and> module_init [''VUE_APP_CLIENT_ID'' \<mapsto> ''cid'']
        \<lparr>localStorage = [''access_token'' \<mapsto> ''A0'', ''refresh_token'' \<mapsto> ''R0''], network = []\<rparr>
        (Inr \<lparr>data = JStr ''tok123''\<rparr> :: unit + response)
     = \<lparr>localStorage = [''access_token'' \<mapsto> ''A0'', ''refresh_token'' \<mapsto> ''R0''], network = []\<rparr>"
proof -
  let ?w = "\<lparr>localStorage = Map.empty, network = []\<rparr>"
  let ?e2 = "[''VUE_APP_CLIENT_ID'' \<mapsto> ''cid'']"
  let ?w2 = "\<lparr>localStorage = [''access_token'' \<mapsto> ''A0'', ''refresh_token'' \<mapsto> ''R0''], network = []\<rparr>"
  let ?resp = "\<lparr>data = JStr ''tok123''\<rparr>"
  have csrf: "Mode_spec Map.empty = Csrf" by (simp add: Mode_spec_def)
  have oauth: "Mode_spec ?e2 = OAuth" by (simp add: Mode_spec_def)
  have ep: "csrfEndpoint Map.empty = JStr ''/session/token''"
    by (simp add: csrfEndpoint_def js_or_def process_env_def)
  have 1: "module_init Map.empty ?w (Inr ?resp :: unit + response)
     = \<lparr>localStorage = [''csrfToken'' \<mapsto> ''tok123''],
        network = [\<lparr>call_client = \<lparr>baseURL = JStr ''/session/token'', request_use = [],
                                   auth_refresh = []\<rparr>,
                    call_method = GET, call_url = JUndefined, call_data = None,
                    call_headers = [], skipAuthRefresh = False\<rparr>]\<rparr>"
    using module_init_by_mode [where e = Map.empty and w = ?w and response = ?resp and 'e = unit]
      csrf ep
    by simp
  have 2: "module_init ?e2 ?w2 (Inr ?resp :: unit + response) = ?w2"
    using module_init_by_mode [where e = ?e2 and w = ?w2 and outcome = "Inr ?resp :: unit + response"]
      oauth
    by simp
  from 1 2 show ?thesis by blast
qed

section \<open>refreshAuthLogic\<close>

text \<open>
  C2. When the client id is configured and non-empty (Mode is OAuth) and a
  \<open>refresh_token\<close> is stored, one run of \<open>refreshAuthLogic\<close> hands exactly one call to
  the transport: a POST on the token client whose form is \<open>grant_type=refresh_token\<close>,
  \<open>client_id\<close> the configured client id, \<open>refresh_token\<close> the stored one, and
  \<open>client_secret\<close> exactly when the secret is set and non-empty. When the POST is
  answered with an object, the store's \<open>access_token\<close> and \<open>refresh_token\<close> are
  overwritten with the (string coercion of the) fields of the answer, nothing else is
  written, and the promise resolves with the failed request, which the transport then
  retries.
\<close>

theorem refreshAuthLogic_refreshes:
  fixes tokenRefreshResponse :: "'a response_scheme" and failedRequest :: 'f
  assumes oauth: "Mode_spec e = OAuth" and cid: "e ''VUE_APP_CLIENT_ID'' = Some cid"
    and stored: "localStorage w ''refresh_token'' = Some r"
    and body: "data tokenRefreshResponse = JObj fs"
  shows
    "let d = [(''grant_type'', ''refresh_token''), (''client_id'', cid), (''refresh_token'', r)]
             @ (case e ''VUE_APP_CLIENT_SECRET'' of
                  None \<Rightarrow> []
                | Some s \<Rightarrow> if s \<noteq> [] then [(''client_secret'', s)] else []);
         call = \<lparr>call_client = tokenClient e, call_method = POST, call_url = JStr [],
                 call_data = Some d,
                 call_headers =
                   [(''Content-Type'', JStr ''application/x-www-form-urlencoded''),
                    (''Authorization'', JNull)],
                 skipAuthRefresh = True\<rparr>
     in (refreshAuthLogic_send e w :: 'e failure + world) = Inr (w\<lparr>network := network w @ [call]\<rparr>)
      \<and> (refreshAuthLogic e w failedRequest (Inr tokenRefreshResponse :: 'e + 'a response_scheme)) =
          (w\<lparr>localStorage := (localStorage w)
                 (''access_token'' \<mapsto> js_to_string (field fs ''access_token''),
                  ''refresh_token'' \<mapsto> js_to_string (field fs ''refresh_token'')),
              network := network w @ [call]\<rparr>,
           Inr failedRequest)"
  using cid stored body
  by (simp add: Let_def refreshAuthLogic_def refreshAuthLogic_send_eq refreshAuthLogic_then_def
      setAccessToken_def setItem_def getItem_def process_env_def)

theorem refreshAuthLogic_refreshes_witness:
  "(refreshAuthLogic_send [''VUE_APP_CLIENT_ID'' \<mapsto> ''cid'', ''VUE_APP_CLIENT_SECRET'' \<mapsto> ''s3''] 
      \<lparr>localStorage = [''access_token'' \<mapsto> ''A1'', ''refresh_token'' \<mapsto> ''R1''], network = []\<rparr>
      :: unit failure + world) =
     Inr \<lparr>localStorage = [''access_token'' \<mapsto> ''A1'', ''refresh_token'' \<mapsto> ''R1''],
          network = [\<lparr>call_client = \<lparr>baseURL = JStr ''/oauth/token'', request_use = [], auth_refresh = []\<rparr>,
                      call_method = POST, call_url = JStr [],
                      call_data = Some [(''grant_type'', ''refresh_token''), (''client_id'', ''cid''),
                                        (''refresh_token'', ''R1''), (''client_secret'', ''s3'')],
                      call_headers =
                        [(''Content-Type'', JStr ''application/x-www-form-urlencoded''),
                         (''Authorization'', JNull)],
                      skipAuthRefresh = True\<rparr>]\<rparr>
   \<and> localStorage (fst (refreshAuthLogic [''VUE_APP_CLIENT_ID'' \<mapsto> ''cid'', ''VUE_APP_CLIENT_SECRET'' \<mapsto> ''s3'']
      \<lparr>localStorage = [''access_token'' \<mapsto> ''A1'', ''refresh_token'' \<mapsto> ''R1''], network = []\<rparr>
      ''failed''
      (Inr \<lparr>data = JObj [(''access_token'', JStr ''A2''), (''refresh_token'', JStr ''R2'')]\<rparr>
        :: unit + response)))
     = [''access_token'' \<mapsto> ''A2'', ''refresh_token'' \<mapsto> ''R2'']
   \<and> snd (refreshAuthLogic [''VUE_APP_CLIENT_ID'' \<mapsto> ''cid'', ''VUE_APP_CLIENT_SECRET'' \<mapsto> ''s3'']
      \<lparr>localStorage = [''access_token'' \<mapsto> ''A1'', ''refresh_token'' \<mapsto> ''R1''], network = []\<rparr>
      ''failed''
      (Inr \<lparr>data = JObj [(''access_token'', JStr ''A2''), (''refresh_token'', JStr ''R2'')]\<rparr>
        :: unit + response))
     = Inr ''failed''"
proof -
  let ?e = "[''VUE_APP_CLIENT_ID'' \<mapsto> ''cid'', ''VUE_APP_CLIENT_SECRET'' \<mapsto> ''s3'']"
  let ?w = "\<lparr>localStorage = [''access_token'' \<mapsto> ''A1'', ''refresh_token'' \<mapsto> ''R1''], network = []\<rparr>"
  let ?resp = "\<lparr>data = JObj [(''access_token'', JStr ''A2''), (''refresh_token'', JStr ''R2'')]\<rparr>"
  have oauth: "Mode_spec ?e = OAuth" by (simp add: Mode_spec_def)
  have cid: "?e ''VUE_APP_CLIENT_ID'' = Some ''cid''" by simp
  have stored: "localStorage ?w ''refresh_token'' = Some ''R1''" by simp
  have body: "data ?resp = JObj [(''access_token'', JStr ''A2''), (''refresh_token'', JStr ''R2'')]" by simp
  have tc: "tokenClient ?e = \<lparr>baseURL = JStr ''/oauth/token'', request_use = [], auth_refresh = []\<rparr>"
    by (simp add: tokenClient_def process_env_def createClient_truthy oauthEndpoint_def js_or_def)
  note t = refreshAuthLogic_refreshes [OF oauth cid stored body, where failedRequest = "''failed''" and 'e = unit,
      unfolded Let_def tc]
  from t have A: "(refreshAuthLogic_send ?e ?w :: unit failure + world) =
     Inr \<lparr>localStorage = [''access_token'' \<mapsto> ''A1'', ''refresh_token'' \<mapsto> ''R1''],
          network = [\<lparr>call_client = \<lparr>baseURL = JStr ''/oauth/token'', request_use = [], auth_refresh = []\<rparr>,
                      call_method = POST, call_url = JStr [],
                      call_data = Some [(''grant_type'', ''refresh_token''), (''client_id'', ''cid''),
                                        (''refresh_token'', ''R1''), (''client_secret'', ''s3'')],
                      call_headers =
                        [(''Content-Type'', JStr ''application/x-www-form-urlencoded''),
                         (''Authorization'', JNull)],
                      skipAuthRefresh = True\<rparr>]\<rparr>"
    by simp
  from t have B: "localStorage (fst (refreshAuthLogic ?e ?w ''failed'' (Inr ?resp :: unit + response)))
     = [''access_token'' \<mapsto> ''A2'', ''refresh_token'' \<mapsto> ''R2'']"
    by (simp add: field_def fun_eq_iff)
  from t have C: "snd (refreshAuthLogic ?e ?w ''failed'' (Inr ?resp :: unit + response)) = Inr ''failed''"
    by simp
  from A B C show ?thesis by blast
qed

text \<open>
  C7. When the refresh POST is rejected, the promise returned by \<open>refreshAuthLogic\<close> is
  rejected with the transport's own error; that one POST, marked \<open>skipAuthRefresh\<close>, is
  the only call handed to the transport; and the store is left exactly as it was: no
  token is cleared or overwritten, and nothing is logged out.
\<close>

theorem refreshAuthLogic_failure:
  fixes failedRequest :: 'f and err :: 'e
  shows
    "refreshAuthLogic e w failedRequest (Inl err :: 'e + 'a response_scheme) =
       (w\<lparr>network := network w @
           [\<lparr>call_client = tokenClient e, call_method = POST, call_url = JStr [],
             call_data = Some
               ([(''grant_type'', ''refresh_token''),
                 (''client_id'', js_to_string (process_env e ''VUE_APP_CLIENT_ID'')),
                 (''refresh_token'', js_to_string (getItem (localStorage w) ''refresh_token''))]
                @ (case e ''VUE_APP_CLIENT_SECRET'' of
                     None \<Rightarrow> []
                   | Some s \<Rightarrow> if s \<noteq> [] then [(''client_secret'', s)] else [])),
             call_headers =
               [(''Content-Type'', JStr ''application/x-www-form-urlencoded''),
                (''Authorization'', JNull)],
             skipAuthRefresh = True\<rparr>]\<rparr>,
        Inl (Rejected err))
     \<and> localStorage (fst (refreshAuthLogic e w failedRequest (Inl err :: 'e + 'a response_scheme)))
         = localStorage w"
  by (simp add: refreshAuthLogic_def refreshAuthLogic_send_eq)

text \<open>
  C10. When Mode is OAuth and no \<open>refresh_token\<close> is stored, \<open>refreshAuthLogic\<close> does
  not stop short: it still hands the refresh POST to the transport, and the form's
  \<open>refresh_token\<close> field carries the string \<open>null\<close>, the coercion of what \<open>getItem\<close>
  returned.
\<close>

theorem refreshAuthLogic_without_refresh_token:
  assumes oauth: "Mode_spec e = OAuth" and cid: "e ''VUE_APP_CLIENT_ID'' = Some cid"
    and absent: "localStorage w ''refresh_token'' = None"
  shows
    "(refreshAuthLogic_send e w :: 'e failure + world) =
       Inr (w\<lparr>network := network w @
              [\<lparr>call_client = tokenClient e, call_method = POST, call_url = JStr [],
                call_data = Some
                  ([(''grant_type'', ''refresh_token''), (''client_id'', cid),
                    (''refresh_token'', ''null'')]
                   @ (case e ''VUE_APP_CLIENT_SECRET'' of
                        None \<Rightarrow> []
                      | Some s \<Rightarrow> if s \<noteq> [] then [(''client_secret'', s)] else [])),
                call_headers =
                  [(''Content-Type'', JStr ''application/x-www-form-urlencoded''),
                   (''Authorization'', JNull)],
                skipAuthRefresh = True\<rparr>]\<rparr>)"
  using cid absent
  by (simp add: refreshAuthLogic_send_eq getItem_def process_env_def)

theorem refreshAuthLogic_without_refresh_token_witness:
  "(refreshAuthLogic_send [''VUE_APP_CLIENT_ID'' \<mapsto> ''cid'']
      \<lparr>localStorage = [''access_token'' \<mapsto> ''A1''], network = []\<rparr> :: unit failure + world) =
     Inr \<lparr>localStorage = [''access_token'' \<mapsto> ''A1''],
          network = [\<lparr>call_client = \<lparr>baseURL = JStr ''/oauth/token'', request_use = [], auth_refresh = []\<rparr>,
                      call_method = POST, call_url = JStr [],
                      call_data = Some [(''grant_type'', ''refresh_token''), (''client_id'', ''cid''),
                                        (''refresh_token'', ''null'')],
                      call_headers =
                        [(''Content-Type'', JStr ''application/x-www-form-urlencoded''),
                         (''Authorization'', JNull)],
                      skipAuthRefresh = True\<rparr>]\<rparr>"
proof -
  let ?e = "[''VUE_APP_CLIENT_ID'' \<mapsto> ''cid'']"
  let ?w = "\<lparr>localStorage = [''access_token'' \<mapsto> ''A1''], network = []\<rparr>"
  have oauth: "Mode_spec ?e = OAuth" by (simp add: Mode_spec_def)
  have cid: "?e ''VUE_APP_CLIENT_ID'' = Some ''cid''" by simp
  have absent: "localStorage ?w ''refresh_token'' = None" by simp
  have tc: "tokenClient ?e = \<lparr>baseURL = JStr ''/oauth/token'', request_use = [], auth_refresh = []\<rparr>"
    by (simp add: tokenClient_def process_env_def createClient_truthy oauthEndpoint_def js_or_def)
  from refreshAuthLogic_without_refresh_token
         [where e = ?e and w = ?w and cid = "''cid''" and 'e = unit, OF oauth cid absent]
  show ?thesis by (simp add: tc)
qed

section \<open>loginUserCredentials\<close>

text \<open>
  The form, the store and the fulfilment of a login. When the client id is set and
  non-empty, the form that \<open>loginUserCredentials(username, password)\<close> hands to the
  transport is \<open>grant_type=password\<close>, \<open>client_id\<close>, \<open>username\<close>, \<open>password\<close>, then
  \<open>client_secret\<close> exactly when the secret is set and non-empty, then \<open>redirect_uri\<close>
  exactly when the redirect URI is set and non-empty. When the POST is answered with an
  object, the store afterwards holds the answer's \<open>access_token\<close> and \<open>refresh_token\<close>
  (string-coerced) and \<open>username\<close> equal to the argument, and the promise is fulfilled
  with the response itself.
\<close>

lemma loginUserCredentials_oauth:
  fixes response :: "'a response_scheme"
  assumes oauth: "Mode_spec e = OAuth" and cid: "e ''VUE_APP_CLIENT_ID'' = Some cid"
    and body: "data response = JObj fs"
  shows
    "let d = [(''grant_type'', ''password''), (''client_id'', cid),
              (''username'', username), (''password'', password)]
             @ (case e ''VUE_APP_CLIENT_SECRET'' of
                  None \<Rightarrow> []
                | Some s \<Rightarrow> if s \<noteq> [] then [(''client_secret'', s)] else [])
             @ (case e ''VUE_APP_REDIRECT_URI'' of
                  None \<Rightarrow> []
                | Some u \<Rightarrow> if u \<noteq> [] then [(''redirect_uri'', u)] else []);
         call = \<lparr>call_client = tokenClient e, call_method = POST, call_url = oauthEndpoint e,
                 call_data = Some d,
                 call_headers = [(''Content-Type'', JStr ''application/x-www-form-urlencoded'')],
                 skipAuthRefresh = False\<rparr>
     in (login_data e username password :: 'e failure + form_data) = Inr d
      \<and> (loginUserCredentials e w username password (Inr response :: 'e + 'a response_scheme)) =
          (w\<lparr>localStorage := (localStorage w)
                 (''access_token'' \<mapsto> js_to_string (field fs ''access_token''),
                  ''refresh_token'' \<mapsto> js_to_string (field fs ''refresh_token''),
                  ''username'' \<mapsto> username),
              network := network w @ [call]\<rparr>,
           Inr response)"
proof -
  from oauth cid have ne: "cid \<noteq> []"
    by (simp add: Mode_spec_def split: if_splits)
  note d = login_data_oauth [where e = e and cid = cid, OF cid ne]
  show ?thesis
    using body
    by (simp add: Let_def d loginUserCredentials_def loginUserCredentials_send_def
        loginUserCredentials_then_def setAccessToken_def setItem_def)
qed

lemma loginUserCredentials_oauth_example:
  "(login_data [''VUE_APP_CLIENT_ID'' \<mapsto> ''cid'', ''VUE_APP_REDIRECT_URI'' \<mapsto> ''https://app'']
      ''alice'' ''secret1'' :: unit failure + form_data)
     = Inr [(''grant_type'', ''password''), (''client_id'', ''cid''), (''username'', ''alice''),
            (''password'', ''secret1''), (''redirect_uri'', ''https://app'')]
   \<and> localStorage (fst (loginUserCredentials
        [''VUE_APP_CLIENT_ID'' \<mapsto> ''cid'', ''VUE_APP_REDIRECT_URI'' \<mapsto> ''https://app'']
        \<lparr>localStorage = [''csrfToken'' \<mapsto> ''tok''], network = []\<rparr> ''alice'' ''secret1''
        (Inr \<lparr>data = JObj [(''access_token'', JStr ''T1''), (''refresh_token'', JStr ''R1'')]\<rparr>
           :: unit + response)))
     = [''csrfToken'' \<mapsto> ''tok'', ''access_token'' \<mapsto> ''T1'', ''refresh_token'' \<mapsto> ''R1'',
        ''username'' \<mapsto> ''alice'']
   \<and> snd (loginUserCredentials
        [''VUE_APP_CLIENT_ID'' \<mapsto> ''cid'', ''VUE_APP_REDIRECT_URI'' \<mapsto> ''https://app'']
        \<lparr>localStorage = [''csrfToken'' \<mapsto> ''tok''], network = []\<rparr> ''alice'' ''secret1''
        (Inr \<lparr>data = JObj [(''access_token'', JStr ''T1''), (''refresh_token'', JStr ''R1'')]\<rparr>
           :: unit + response))
     = Inr \<lparr>data = JObj [(''access_token'', JStr ''T1''), (''refresh_token'', JStr ''R1'')]\<rparr>"
proof -
  let ?e = "[''VUE_APP_CLIENT_ID'' \<mapsto> ''cid'', ''VUE_APP_REDIRECT_URI'' \<mapsto> ''https://app'']"
  let ?w = "\<lparr>localStorage = [''csrfToken'' \<mapsto> ''tok''], network = []\<rparr>"
  let ?fs = "[(''access_token'', JStr ''T1''), (''refresh_token'', JStr ''R1'')]"
  let ?resp = "\<lparr>data = JObj ?fs\<rparr>"
  have oauth: "Mode_spec ?e = OAuth" by (simp add: Mode_spec_def)
  have cid: "?e ''VUE_APP_CLIENT_ID'' = Some ''cid''" by simp
  have body: "data ?resp = JObj ?fs" by simp
  note t = loginUserCredentials_oauth
      [where e = ?e and cid = "''cid''" and response = ?resp and fs = ?fs and w = ?w
         and username = "''alice''" and password = "''secret1''" and 'e = unit,
       OF oauth cid body, unfolded Let_def]
  from t have A: "(login_data ?e ''alice'' ''secret1'' :: unit failure + form_data)
     = Inr [(''grant_type'', ''password''), (''client_id'', ''cid''), (''username'', ''alice''),
            (''password'', ''secret1''), (''redirect_uri'', ''https://app'')]"
    by simp
  from t have B: "localStorage (fst (loginUserCredentials ?e ?w ''alice'' ''secret1'' (Inr ?resp :: unit + response)))
     = [''csrfToken'' \<mapsto> ''tok'', ''access_token'' \<mapsto> ''T1'', ''refresh_token'' \<mapsto> ''R1'',
        ''username'' \<mapsto> ''alice'']"
    by (simp add: field_def)
  from t have C: "snd (loginUserCredentials ?e ?w ''alice'' ''secret1'' (Inr ?resp :: unit + response))
     = Inr ?resp"
    by simp
  from A B C show ?thesis by blast
qed

text \<open>
  C4, evaluated at a login under the default endpoint. With the client id \<open>cid\<close>
  configured and no \<open>VUE_APP_OAUTH_ENDPOINT\<close>, the token client's base URL is already
  \<open>/oauth/token\<close>, and \<open>loginUserCredentials\<close> passes \<open>oauthEndpoint\<close> again as the URL of
  its POST: the form \<open>grant_type=password\<close>, \<open>client_id\<close>, \<open>username\<close>, \<open>password\<close> is
  sent to \<open>/oauth/token/oauth/token\<close>, not to the OAuth endpoint. \<open>refreshAuthLogic\<close>, on
  the same client, passes the empty URL and its POST does go to \<open>/oauth/token\<close>.
\<close>

theorem loginUserCredentials_posts_beside_endpoint:
  "oauthEndpoint [''VUE_APP_CLIENT_ID'' \<mapsto> ''cid''] = JStr ''/oauth/token''
   \<and> network (fst (loginUserCredentials [''VUE_APP_CLIENT_ID'' \<mapsto> ''cid'']
        \<lparr>localStorage = Map.empty, network = []\<rparr> ''alice'' ''secret1''
        (Inr \<lparr>data = JObj [(''access_token'', JStr ''T1''), (''refresh_token'', JStr ''R1'')]\<rparr>
           :: unit + response)))
     = [\<lparr>call_client = \<lparr>baseURL = JStr ''/oauth/token'', request_use = [], auth_refresh = []\<rparr>,
         call_method = POST, call_url = JStr ''/oauth/token'',
         call_data = Some [(''grant_type'', ''password''), (''client_id'', ''cid''),
                           (''username'', ''alice''), (''password'', ''secret1'')],
         call_headers = [(''Content-Type'', JStr ''application/x-www-form-urlencoded'')],
         skipAuthRefresh = False\<rparr>]
   \<and> map call_target (network (fst (loginUserCredentials [''VUE_APP_CLIENT_ID'' \<mapsto> ''cid'']
        \<lparr>localStorage = Map.empty, network = []\<rparr> ''alice'' ''secret1''
        (Inr \<lparr>data = JObj [(''access_token'', JStr ''T1''), (''refresh_token'', JStr ''R1'')]\<rparr>
           :: unit + response))))
     = [JStr ''/oauth/token/oauth/token'']
   \<and> map call_target (network (fst (refreshAuthLogic [''VUE_APP_CLIENT_ID'' \<mapsto> ''cid'']
        \<lparr>localStorage = [''refresh_token'' \<mapsto> ''R1''], network = []\<rparr> ''failed''
        (Inr \<lparr>data = JObj [(''access_token'', JStr ''T2''), (''refresh_token'', JStr ''R2'')]\<rparr>
           :: unit + response))))
     = [JStr ''/oauth/token'']"
proof -
  let ?e = "[''VUE_APP_CLIENT_ID'' \<mapsto> ''cid'']"
  have d: "(login_data ?e ''alice'' ''secret1'' :: unit failure + form_data)
      = Inr [(''grant_type'', ''password''), (''client_id'', ''cid''),
             (''username'', ''alice''), (''password'', ''secret1'')]"
    using login_data_oauth [where e = ?e and cid = "''cid''" and username = "''alice''"
        and password = "''secret1''"] by simp
  have tc: "tokenClient ?e = \<lparr>baseURL = JStr ''/oauth/token'', request_use = [], auth_refresh = []\<rparr>"
    by (simp add: tokenClient_def process_env_def createClient_truthy oauthEndpoint_def js_or_def)
  have ep: "oauthEndpoint ?e = JStr ''/oauth/token''"
    by (simp add: process_env_def oauthEndpoint_def js_or_def)
  have rel: "\<not> isAbsoluteURL ''/oauth/token''"
    by (simp add: isAbsoluteURL_def scheme_start_def Let_def)
  have twice: "combineURLs ''/oauth/token'' ''/oauth/token'' = ''/oauth/token/oauth/token''"
    by (simp add: combineURLs_def)
  have none: "combineURLs ''/oauth/token'' [] = ''/oauth/token''"
    by (simp add: combineURLs_def)
  have empty: "\<not> isAbsoluteURL []"
    by (simp add: isAbsoluteURL_def)
  have login: "network (fst (loginUserCredentials ?e \<lparr>localStorage = Map.empty, network = []\<rparr>
        ''alice'' ''secret1''
        (Inr \<lparr>data = JObj [(''access_token'', JStr ''T1''), (''refresh_token'', JStr ''R1'')]\<rparr>
           :: unit + response)))
     = [\<lparr>call_client = \<lparr>baseURL = JStr ''/oauth/token'', request_use = [], auth_refresh = []\<rparr>,
         call_method = POST, call_url = JStr ''/oauth/token'',
         call_data = Some [(''grant_type'', ''password''), (''client_id'', ''cid''),
                           (''username'', ''alice''), (''password'', ''secret1'')],
         call_headers = [(''Content-Type'', JStr ''application/x-www-form-urlencoded'')],
         skipAuthRefresh = False\<rparr>]"
    by (simp add: loginUserCredentials_def loginUserCredentials_send_def
        loginUserCredentials_then_def d tc ep Let_def)
  have refresh: "map call_target (network (fst (refreshAuthLogic ?e
        \<lparr>localStorage = [''refresh_token'' \<mapsto> ''R1''], network = []\<rparr> ''failed''
        (Inr \<lparr>data = JObj [(''access_token'', JStr ''T2''), (''refresh_token'', JStr ''R2'')]\<rparr>
           :: unit + response))))
     = [JStr ''/oauth/token'']"
    by (simp add: refreshAuthLogic_def refreshAuthLogic_send_eq refreshAuthLogic_then_def tc
        call_target_def buildFullPath_def empty none Let_def)
  from login have target: "map call_target (network (fst (loginUserCredentials ?e
        \<lparr>localStorage = Map.empty, network = []\<rparr> ''alice'' ''secret1''
        (Inr \<lparr>data = JObj [(''access_token'', JStr ''T1''), (''refresh_token'', JStr ''R1'')]\<rparr>
           :: unit + response))))
     = [JStr ''/oauth/token/oauth/token'']"
    by (simp add: call_target_def buildFullPath_def rel twice)
  from ep login target refresh show ?thesis by blast
qed

text \<open>
  C3, evaluated at a failing login. With the client id \<open>cid\<close> configured and the store
  holding \<open>access_token = T0\<close> and \<open>csrfToken = tok\<close>, a login whose POST is rejected
  leaves \<open>access_token\<close> holding the string \<open>null\<close>: \<open>setAccessToken(null)\<close> goes through
  \<open>setItem\<close>, which stores the string coercion of its argument. That string is truthy, so
  \<open>getAccessToken\<close> still reports a token and the next request is sent with
  \<open>Authorization: Bearer null\<close> (and without the CSRF header). Every other stored value is
  untouched.
\<close>

theorem loginUserCredentials_failed_leaves_null_string:
  "loginUserCredentials [''VUE_APP_CLIENT_ID'' \<mapsto> ''cid'']
      \<lparr>localStorage = [''access_token'' \<mapsto> ''T0'', ''csrfToken'' \<mapsto> ''tok''], network = []\<rparr>
      ''alice'' ''wrong'' (Inl ''401'' :: string + response)
     = (\<lparr>localStorage = [''access_token'' \<mapsto> ''null'', ''csrfToken'' \<mapsto> ''tok''],
         network = [\<lparr>call_client = \<lparr>baseURL = JStr ''/oauth/token'', request_use = [], auth_refresh = []\<rparr>,
                     call_method = POST, call_url = JStr ''/oauth/token'',
                     call_data = Some [(''grant_type'', ''password''), (''client_id'', ''cid''),
                                       (''username'', ''alice''), (''password'', ''wrong'')],
                     call_headers = [(''Content-Type'', JStr ''application/x-www-form-urlencoded'')],
                     skipAuthRefresh = False\<rparr>]\<rparr>,
        Inl (Rejected ''401''))
   \<and> truthy (getAccessToken [''access_token'' \<mapsto> ''null'', ''csrfToken'' \<mapsto> ''tok''])
   \<and> requestInterceptor [''access_token'' \<mapsto> ''null'', ''csrfToken'' \<mapsto> ''tok'']
        \<lparr>headers = Map.empty\<rparr>
     = \<lparr>headers = [''Authorization'' \<mapsto> ''Bearer null'']\<rparr>"
proof -
  let ?e = "[''VUE_APP_CLIENT_ID'' \<mapsto> ''cid'']"
  have d: "(login_data ?e ''alice'' ''wrong'' :: string failure + form_data)
      = Inr [(''grant_type'', ''password''), (''client_id'', ''cid''),
             (''username'', ''alice''), (''password'', ''wrong'')]"
    using login_data_oauth [where e = ?e and cid = "''cid''" and username = "''alice''"
        and password = "''wrong''"] by simp
  have tc: "tokenClient ?e = \<lparr>baseURL = JStr ''/oauth/token'', request_use = [], auth_refresh = []\<rparr>"
    by (simp add: tokenClient_def process_env_def createClient_truthy oauthEndpoint_def js_or_def)
  have ep: "oauthEndpoint ?e = JStr ''/oauth/token''"
    by (simp add: process_env_def oauthEndpoint_def js_or_def)
  show ?thesis
    by (simp add: loginUserCredentials_def loginUserCredentials_send_def d tc ep Let_def
        setAccessToken_def setItem_def requestInterceptor_def getAccessToken_def getItem_def
        fun_upd_twist)
qed

section \<open>logoutUser\<close>

text \<open>
  C8. \<open>logoutUser\<close> removes exactly the keys \<open>access_token\<close>, \<open>refresh_token\<close> and
  \<open>username\<close> from the store: afterwards these three are absent and every other key
  holds what it held. It hands no call to the transport, and it is idempotent: a second
  call (or a call on a store that holds none of the three) returns the same state, and
  the function has no failing branch.
\<close>

theorem logoutUser_clears_idempotent:
  "localStorage (logoutUser w) =
     (\<lambda>k. if k \<in> {''access_token'', ''refresh_token'', ''username''} then None
          else localStorage w k)
   \<and> network (logoutUser w) = network w
   \<and> logoutUser (logoutUser w) = logoutUser w"
  by (auto simp: logoutUser_def removeItem_def Let_def fun_eq_iff)

section \<open>The csrfToken slot\<close>

text \<open>
  C9. No run of \<open>loginUserCredentials\<close> (whether the form raises, the POST is rejected
  or it is answered), no run of \<open>refreshAuthLogic\<close> (rejected or answered) and no run of
  \<open>logoutUser\<close> changes what the store holds under \<open>csrfToken\<close>.
\<close>

theorem credential_store_csrfToken_frame:
  fixes outcome :: "'e + 'a response_scheme" and failedRequest :: 'f
  shows
    "localStorage (fst (loginUserCredentials e w username password outcome)) ''csrfToken''
       = localStorage w ''csrfToken''
     \<and> localStorage (fst (refreshAuthLogic e w failedRequest outcome)) ''csrfToken''
       = localStorage w ''csrfToken''
     \<and> localStorage (logoutUser w) ''csrfToken'' = localStorage w ''csrfToken''"
  by (simp add: loginUserCredentials_def loginUserCredentials_send_def loginUserCredentials_then_def
      refreshAuthLogic_def refreshAuthLogic_send_def refreshAuthLogic_then_def
      logoutUser_def removeItem_def setAccessToken_def setItem_def Let_def
      split: sum.splits)

end
